theory Spec2Isabelle
  imports Main
begin

section \<open>The EC2 environment provider (environs/ec2/ec2.go)\<close>

text \<open>
  A shallow embedding of the instance lifecycle controller of \<^verbatim>\<open>environs/ec2/ec2.go\<close>.
  The remote services (the EC2 client, the state bucket, the image selector) are not part
  of the file: they are a record of response functions, one per request, each reading the
  history of requests made so far. A method of \<^verbatim>\<open>environ\<close> becomes a function from the
  history before the call to its result and the history after it.
\<close>

subsection \<open>Errors\<close>

text \<open>
  A Go \<^verbatim>\<open>error\<close> is \<open>error option\<close>, \<open>None\<close> for \<^verbatim>\<open>nil\<close>. The dynamic types that the
  file tells apart are constructors: \<^verbatim>\<open>*ec2.Error\<close> (code and message), \<^verbatim>\<open>*s3.Error\<close>
  (status code and message), the sentinel \<^verbatim>\<open>environs.ErrMissingInstance\<close>, the values built
  by \<^verbatim>\<open>fmt.Errorf\<close> (the format and its argument), and any other error value of a
  collaborator.
\<close>

datatype error =
    EC2Error string string
  | S3Error int string
  | ErrMissingInstance
  | OtherError string
  | Errorf string
  | ErrorfErr string error
  | ErrorfInt string int

text \<open>A call that may panic (an index out of range) has three outcomes.\<close>

datatype 'a result = Ok 'a | Err error | Panic

text \<open>\<^verbatim>\<open>ec2ErrCode\<close>: the code of an \<^verbatim>\<open>*ec2.Error\<close>, the empty string otherwise.\<close>

fun ec2ErrCode :: "error option \<Rightarrow> string" where
  "ec2ErrCode (Some (EC2Error code msg)) = code"
| "ec2ErrCode _ = ''''"

subsection \<open>Data of the EC2 client\<close>

record SecurityGroup =
  sg_Id :: string
  sg_Name :: string

record UserSecurityGroup =
  usg_Id :: string
  usg_Name :: string
  usg_OwnerId :: string

record IPPerm =
  Protocol :: string
  FromPort :: int
  ToPort :: int
  SourceIPs :: "string list"
  SourceGroups :: "UserSecurityGroup list"

record SecurityGroupInfo =
  sgi_SecurityGroup :: SecurityGroup
  sgi_Description :: string
  sgi_IPPerms :: "IPPerm list"

text \<open>
  An \<^verbatim>\<open>ec2.Instance\<close>, with the two fields the file reads. The wrapper \<^verbatim>\<open>instance\<close> adds
  the pointer to its \<^verbatim>\<open>environ\<close>, which is always the receiver, so an instance of the
  environment is the EC2 record itself. A slot of \<^verbatim>\<open>[]environs.Instance\<close> is an
  \<open>Instance option\<close>, \<open>None\<close> for \<^verbatim>\<open>nil\<close>.
\<close>

record Instance =
  InstanceId :: string
  DNSName :: string

type_synonym Reservation = "Instance list"

record RunInstances =
  ImageId :: string
  MinCount :: int
  MaxCount :: int
  InstanceType :: string
  SecurityGroups :: "SecurityGroup list"

type_synonym Filter = "(string \<times> string list) list"

record bootstrapState =
  ZookeeperInstances :: "string list"

subsection \<open>Requests and the environment\<close>

datatype call =
    LoadStateCall
  | SaveStateCall bootstrapState
  | DeleteStateCall
  | FindImageSpecCall
  | CreateSecurityGroupCall string string
  | SecurityGroupsCall "string list"
  | RevokeSecurityGroupCall SecurityGroup "IPPerm list"
  | AuthorizeSecurityGroupCall SecurityGroup "IPPerm list"
  | RunInstancesCall RunInstances
  | InstancesCall Filter
  | TerminateInstancesCall "string list"

type_synonym world = "call list"

record permKey =
  protocol :: string
  fromPort :: int
  toPort :: int
  groupId :: string
  ipAddr :: string

text \<open>
  \<^verbatim>\<open>permSet\<close> is \<^verbatim>\<open>map[permKey]bool\<close> used as a set: the file only ever stores
  \<^verbatim>\<open>true\<close>, and a lookup of an absent key gives \<^verbatim>\<open>false\<close>.
\<close>

type_synonym permSet = "permKey set"

text \<open>
  Modelled from the spec: \<^verbatim>\<open>attemptStrategy\<close> with \<^verbatim>\<open>start\<close> and \<^verbatim>\<open>next\<close> is used by
  ec2.go and declared elsewhere. By section 4.1 of the specification the first \<^verbatim>\<open>next()\<close>
  of a cursor is always true, and the later ones are true until the elapsed time would
  exceed the total duration, then false. The wall clock is outside the model:
  \<open>shortRetries e w\<close> is the number of times \<^verbatim>\<open>next()\<close> is true after the first, for a cursor
  of \<^verbatim>\<open>shortAttempt\<close> started at history \<open>w\<close>. A loop over the cursor therefore runs its body
  at most \<open>Suc (shortRetries e w)\<close> times.

  \<^verbatim>\<open>loadState\<close>, \<^verbatim>\<open>saveState\<close>, \<^verbatim>\<open>deleteState\<close> and \<^verbatim>\<open>FindImageSpec\<close> are declared
  elsewhere too; like the requests of the EC2 client they are response functions here.

  \<open>mapRange\<close> is the order in which the Go runtime visits the keys of a map in a
  \<^verbatim>\<open>range\<close> loop; the language leaves it unspecified.
\<close>

record env =
  env_name :: string
  shortRetries :: "world \<Rightarrow> nat"
  mapRange :: "world \<Rightarrow> permSet \<Rightarrow> permKey list"
  loadState_resp :: "world \<Rightarrow> error + bootstrapState"
  saveState_resp :: "world \<Rightarrow> bootstrapState \<Rightarrow> error option"
  deleteState_resp :: "world \<Rightarrow> error option"
  FindImageSpec_resp :: "world \<Rightarrow> error + string"
  CreateSecurityGroup_resp :: "world \<Rightarrow> string \<Rightarrow> string \<Rightarrow> error + SecurityGroup"
  SecurityGroups_resp :: "world \<Rightarrow> string list \<Rightarrow> error + SecurityGroupInfo list"
  RevokeSecurityGroup_resp :: "world \<Rightarrow> SecurityGroup \<Rightarrow> IPPerm list \<Rightarrow> error option"
  AuthorizeSecurityGroup_resp :: "world \<Rightarrow> SecurityGroup \<Rightarrow> IPPerm list \<Rightarrow> error option"
  RunInstances_resp :: "world \<Rightarrow> RunInstances \<Rightarrow> error + Instance list"
  Instances_resp :: "world \<Rightarrow> Filter \<Rightarrow> error + Reservation list"
  TerminateInstances_resp :: "world \<Rightarrow> string list \<Rightarrow> error option"

text \<open>Each request answers from the history and appends itself to it.\<close>

definition ec2_TerminateInstances :: "env \<Rightarrow> string list \<Rightarrow> world \<Rightarrow> error option \<times> world" where
  "ec2_TerminateInstances e ids w =
     (TerminateInstances_resp e w ids, w @ [TerminateInstancesCall ids])"

subsection \<open>terminateInstances and StopInstances\<close>

text \<open>
  The first loop of \<^verbatim>\<open>terminateInstances\<close> (lines 318 to 323): the bulk request under the
  short strategy. The loop either returns from the function (\<open>Inl\<close> the returned error) or
  falls through with the last error in \<^verbatim>\<open>err\<close> (\<open>Inr\<close>). The third argument is the number
  of times \<^verbatim>\<open>next()\<close> will still be true.
\<close>

fun terminate_bulk ::
  "env \<Rightarrow> string list \<Rightarrow> nat \<Rightarrow> error option \<Rightarrow> world \<Rightarrow> (error option + error option) \<times> world" where
  "terminate_bulk e ids 0 err w = (Inr err, w)"
| "terminate_bulk e ids (Suc n) err w =
     (let (err', w') = ec2_TerminateInstances e ids w in
      if err' = None \<or> ec2ErrCode err' \<noteq> ''InvalidInstanceID.NotFound''
      then (Inl err', w')
      else terminate_bulk e ids n err' w')"

text \<open>The second loop (lines 331 to 339): one request per id, keeping the first error.\<close>

fun terminate_each :: "env \<Rightarrow> string list \<Rightarrow> error option \<Rightarrow> world \<Rightarrow> error option \<times> world" where
  "terminate_each e [] firstErr w = (firstErr, w)"
| "terminate_each e (i # ids) firstErr w =
     (let (err, w') = ec2_TerminateInstances e [i] w;
          err = (if ec2ErrCode err = ''InvalidInstanceID.NotFound'' then None else err);
          firstErr = (if err \<noteq> None \<and> firstErr = None then err else firstErr)
      in terminate_each e ids firstErr w')"

definition terminateInstances :: "env \<Rightarrow> string list \<Rightarrow> world \<Rightarrow> error option \<times> world" where
  "terminateInstances e ids w =
     (if length ids = 0 then (None, w)
      else
        (case terminate_bulk e ids (Suc (shortRetries e w)) None w of
           (Inl err, w') \<Rightarrow> (err, w')
         | (Inr err, w') \<Rightarrow>
             if length ids = 1 then (err, w')
             else terminate_each e ids None w'))"

definition StopInstances :: "env \<Rightarrow> Instance list \<Rightarrow> world \<Rightarrow> error option \<times> world" where
  "StopInstances e insts w = terminateInstances e (map InstanceId insts) w"

subsection \<open>Security groups: permSet, ensureGroup, setUpGroups\<close>

definition ec2_CreateSecurityGroup ::
  "env \<Rightarrow> string \<Rightarrow> string \<Rightarrow> world \<Rightarrow> (error + SecurityGroup) \<times> world" where
  "ec2_CreateSecurityGroup e name desc w =
     (CreateSecurityGroup_resp e w name desc, w @ [CreateSecurityGroupCall name desc])"

definition ec2_SecurityGroups ::
  "env \<Rightarrow> string list \<Rightarrow> world \<Rightarrow> (error + SecurityGroupInfo list) \<times> world" where
  "ec2_SecurityGroups e names w = (SecurityGroups_resp e w names, w @ [SecurityGroupsCall names])"

definition ec2_RevokeSecurityGroup ::
  "env \<Rightarrow> SecurityGroup \<Rightarrow> IPPerm list \<Rightarrow> world \<Rightarrow> error option \<times> world" where
  "ec2_RevokeSecurityGroup e g perms w =
     (RevokeSecurityGroup_resp e w g perms, w @ [RevokeSecurityGroupCall g perms])"

definition ec2_AuthorizeSecurityGroup ::
  "env \<Rightarrow> SecurityGroup \<Rightarrow> IPPerm list \<Rightarrow> world \<Rightarrow> error option \<times> world" where
  "ec2_AuthorizeSecurityGroup e g perms w =
     (AuthorizeSecurityGroup_resp e w g perms, w @ [AuthorizeSecurityGroupCall g perms])"

text \<open>
  \<^verbatim>\<open>newPermSet\<close>: the body of the outer loop for one \<^verbatim>\<open>IPPerm\<close>, then the loop. The key
  \<open>k\<close> starts with empty \<^verbatim>\<open>groupId\<close> and \<^verbatim>\<open>ipAddr\<close>; the first inner loop sets
  \<^verbatim>\<open>groupId\<close> only, and \<^verbatim>\<open>groupId\<close> is reset before the second sets \<^verbatim>\<open>ipAddr\<close>.
\<close>

definition newPermSet_step :: "IPPerm \<Rightarrow> permSet \<Rightarrow> permSet" where
  "newPermSet_step p m =
     (let k = \<lparr>protocol = Protocol p, fromPort = FromPort p, toPort = ToPort p,
                groupId = '''', ipAddr = ''''\<rparr>;
          m = fold (\<lambda>g m. insert (k\<lparr>groupId := usg_Id g\<rparr>) m) (SourceGroups p) m;
          k = k\<lparr>groupId := ''''\<rparr>;
          m = fold (\<lambda>ip m. insert (k\<lparr>ipAddr := ip\<rparr>) m) (SourceIPs p) m
      in m)"

definition newPermSet :: "IPPerm list \<Rightarrow> permSet" where
  "newPermSet ps = fold newPermSet_step ps {}"

text \<open>\<^verbatim>\<open>ipPerms\<close>: the body of its loop for one key, then the loop in the runtime's order.\<close>

definition ipPerms_step :: "permKey \<Rightarrow> IPPerm" where
  "ipPerms_step p =
     (let ipp = \<lparr>Protocol = protocol p, FromPort = fromPort p, ToPort = toPort p,
                  SourceIPs = [], SourceGroups = []\<rparr>
      in if ipAddr p \<noteq> '''' then ipp\<lparr>SourceIPs := [ipAddr p]\<rparr>
         else ipp\<lparr>SourceGroups := [\<lparr>usg_Id = groupId p, usg_Name = '''', usg_OwnerId = ''''\<rparr>]\<rparr>)"

definition ipPerms :: "env \<Rightarrow> world \<Rightarrow> permSet \<Rightarrow> IPPerm list" where
  "ipPerms e w m = map ipPerms_step (mapRange e w m)"

text \<open>
  \<^verbatim>\<open>ensureGroup\<close>, lines 394 to 414 (without \<^verbatim>\<open>want\<close>): the group and the permissions it
  has. A new group has none; for a duplicate the group is fetched, and \<^verbatim>\<open>resp.Groups[0]\<close>
  panics when the response holds no group.
\<close>

definition ensureGroup_have ::
  "env \<Rightarrow> string \<Rightarrow> world \<Rightarrow> (SecurityGroup \<times> permSet) result \<times> world" where
  "ensureGroup_have e name w =
     (let (resp, w1) = ec2_CreateSecurityGroup e name ''juju group'' w in
      case resp of
        Inr g \<Rightarrow> (Ok (g, {}), w1)
      | Inl err \<Rightarrow>
          if ec2ErrCode (Some err) \<noteq> ''InvalidGroup.Duplicate'' then (Err err, w1)
          else
            (let (resp, w2) = ec2_SecurityGroups e [name] w1 in
             case resp of
               Inl err \<Rightarrow> (Err err, w2)
             | Inr [] \<Rightarrow> (Panic, w2)
             | Inr (g0 # groups) \<Rightarrow>
                 (Ok (sgi_SecurityGroup g0, newPermSet (sgi_IPPerms g0)), w2)))"

text \<open>Lines 415 to 440: revoke what is had and not wanted, authorize what is wanted and not had.\<close>

definition ensureGroup_converge ::
  "env \<Rightarrow> SecurityGroup \<Rightarrow> permSet \<Rightarrow> permSet \<Rightarrow> world \<Rightarrow> SecurityGroup result \<times> world" where
  "ensureGroup_converge e g want have w =
     (let revoke = {p \<in> have. p \<notin> want};
          (err, w1) = (if revoke \<noteq> {} then ec2_RevokeSecurityGroup e g (ipPerms e w revoke) w
                       else (None, w))
      in case err of
           Some err \<Rightarrow> (Err (ErrorfErr ''cannot revoke security group: %v'' err), w1)
         | None \<Rightarrow>
             (let add = {p \<in> want. p \<notin> have};
                  (err, w2) = (if add \<noteq> {} then ec2_AuthorizeSecurityGroup e g (ipPerms e w1 add) w1
                               else (None, w1))
              in case err of
                   Some err \<Rightarrow> (Err (ErrorfErr ''cannot authorize securityGroup: %v'' err), w2)
                 | None \<Rightarrow> (Ok g, w2)))"

definition ensureGroup ::
  "env \<Rightarrow> string \<Rightarrow> IPPerm list \<Rightarrow> world \<Rightarrow> SecurityGroup result \<times> world" where
  "ensureGroup e name perms w =
     (case ensureGroup_have e name w of
        (Err err, w1) \<Rightarrow> (Err err, w1)
      | (Panic, w1) \<Rightarrow> (Panic, w1)
      | (Ok (g, have), w1) \<Rightarrow> ensureGroup_converge e g (newPermSet perms) have w1)"

text \<open>\<^verbatim>\<open>%d\<close> of \<^verbatim>\<open>fmt.Sprintf\<close>: an integer in decimal.\<close>

function decimal :: "nat \<Rightarrow> string" where
  "decimal n =
     (if n < 10 then [''0123456789'' ! n]
      else decimal (n div 10) @ [''0123456789'' ! (n mod 10)])"
  by pat_completeness auto
termination
  by (relation "measure id") auto

declare decimal.simps [simp del]

definition sprint_int :: "int \<Rightarrow> string" where
  "sprint_int i = (if i < 0 then ''-'' @ decimal (nat (- i)) else decimal (nat i))"

definition zkPort :: int where
  "zkPort = 2181"

definition groupName :: "env \<Rightarrow> string" where
  "groupName e = ''juju-'' @ env_name e"

definition machineGroupName :: "env \<Rightarrow> int \<Rightarrow> string" where
  "machineGroupName e machineId = groupName e @ ''-'' @ sprint_int machineId"

definition setUpGroups :: "env \<Rightarrow> int \<Rightarrow> world \<Rightarrow> SecurityGroup list result \<times> world" where
  "setUpGroups e machineId w =
     (case ensureGroup e (groupName e)
             [\<lparr>Protocol = ''tcp'', FromPort = zkPort, ToPort = zkPort,
               SourceIPs = [''0.0.0.0/0''], SourceGroups = []\<rparr>,
              \<lparr>Protocol = ''tcp'', FromPort = 22, ToPort = 22,
               SourceIPs = [''0.0.0.0/0''], SourceGroups = []\<rparr>] w of
        (Err err, w1) \<Rightarrow> (Err err, w1)
      | (Panic, w1) \<Rightarrow> (Panic, w1)
      | (Ok jujuGroup, w1) \<Rightarrow>
          (case ensureGroup e (machineGroupName e machineId) [] w1 of
             (Err err, w2) \<Rightarrow> (Err err, w2)
           | (Panic, w2) \<Rightarrow> (Panic, w2)
           | (Ok jujuMachineGroup, w2) \<Rightarrow> (Ok [jujuGroup, jujuMachineGroup], w2)))"

subsection \<open>startInstance and Bootstrap\<close>

definition FindImageSpec :: "env \<Rightarrow> world \<Rightarrow> (error + string) \<times> world" where
  "FindImageSpec e w = (FindImageSpec_resp e w, w @ [FindImageSpecCall])"

text \<open>
  A request of the EC2 client returns a response or an error, never both: the pair
  \<^verbatim>\<open>(instances, err)\<close> after \<^verbatim>\<open>RunInstances\<close> has one side \<^verbatim>\<open>nil\<close>.
\<close>

definition ec2_RunInstances ::
  "env \<Rightarrow> RunInstances \<Rightarrow> world \<Rightarrow> (Instance list option \<times> error option) \<times> world" where
  "ec2_RunInstances e req w =
     ((case RunInstances_resp e w req of
         Inl err \<Rightarrow> (None, Some err)
       | Inr insts \<Rightarrow> (Some insts, None)),
      w @ [RunInstancesCall req])"

text \<open>
  The loop of \<^verbatim>\<open>startInstance\<close> (lines 174 to 186), on the variables \<^verbatim>\<open>instances\<close> and
  \<^verbatim>\<open>err\<close>.
\<close>

fun run_attempts ::
  "env \<Rightarrow> RunInstances \<Rightarrow> nat \<Rightarrow> Instance list option \<times> error option \<Rightarrow> world
     \<Rightarrow> (Instance list option \<times> error option) \<times> world" where
  "run_attempts e req 0 st w = (st, w)"
| "run_attempts e req (Suc n) st w =
     (let ((instances, err), w') = ec2_RunInstances e req w in
      if err = None \<or> ec2ErrCode err \<noteq> ''InvalidGroup.NotFound''
      then ((instances, err), w')
      else run_attempts e req n (instances, err) w')"

definition startInstance :: "env \<Rightarrow> int \<Rightarrow> bool \<Rightarrow> world \<Rightarrow> Instance result \<times> world" where
  "startInstance e machineId master w =
     (case FindImageSpec e w of
        (Inl err, w1) \<Rightarrow> (Err (ErrorfErr ''cannot find image: %v'' err), w1)
      | (Inr imageId, w1) \<Rightarrow>
          (case setUpGroups e machineId w1 of
             (Err err, w2) \<Rightarrow> (Err (ErrorfErr ''cannot set up groups: %v'' err), w2)
           | (Panic, w2) \<Rightarrow> (Panic, w2)
           | (Ok groups, w2) \<Rightarrow>
               (case run_attempts e
                       \<lparr>ImageId = imageId, MinCount = 1, MaxCount = 1,
                         InstanceType = ''m1.small'', SecurityGroups = groups\<rparr>
                       (Suc (shortRetries e w2)) (None, None) w2 of
                  ((instances, Some err), w3) \<Rightarrow>
                    (Err (ErrorfErr ''cannot run instances: %v'' err), w3)
                | ((None, None), w3) \<Rightarrow> (Panic, w3)
                | ((Some insts, None), w3) \<Rightarrow>
                    if length insts \<noteq> 1
                    then (Err (ErrorfInt ''expected 1 started instance, got %d'' (int (length insts))), w3)
                    else (Ok (insts ! 0), w3))))"

definition StartInstance :: "env \<Rightarrow> int \<Rightarrow> world \<Rightarrow> Instance result \<times> world" where
  "StartInstance e machineId w = startInstance e machineId False w"

definition loadState :: "env \<Rightarrow> world \<Rightarrow> (error + bootstrapState) \<times> world" where
  "loadState e w = (loadState_resp e w, w @ [LoadStateCall])"

definition saveState :: "env \<Rightarrow> bootstrapState \<Rightarrow> world \<Rightarrow> error option \<times> world" where
  "saveState e st w = (saveState_resp e w st, w @ [SaveStateCall st])"


text \<open>
  The test of line 111: \<^verbatim>\<open>s3err, _ := err.(*s3.Error); s3err != nil && s3err.StatusCode != 404\<close>.
\<close>

fun s3_error_not_404 :: "error \<Rightarrow> bool" where
  "s3_error_not_404 (S3Error code msg) = (code \<noteq> 404)"
| "s3_error_not_404 _ = False"

definition Bootstrap :: "env \<Rightarrow> world \<Rightarrow> unit result \<times> world" where
  "Bootstrap e w =
     (case loadState e w of
        (Inr st, w1) \<Rightarrow> (Err (Errorf ''environment is already bootstrapped''), w1)
      | (Inl err, w1) \<Rightarrow>
          if s3_error_not_404 err then (Err err, w1)
          else
            (case startInstance e 0 True w1 of
               (Err err, w2) \<Rightarrow> (Err (ErrorfErr ''cannot start bootstrap instance: %v'' err), w2)
             | (Panic, w2) \<Rightarrow> (Panic, w2)
             | (Ok inst, w2) \<Rightarrow>
                 (case saveState e \<lparr>ZookeeperInstances = [InstanceId inst]\<rparr> w2 of
                    (Some err, w3) \<Rightarrow>
                      (let (ignored, w4) = StopInstances e [inst] w3 in (Err err, w4))
                  | (None, w3) \<Rightarrow> (Ok (), w3))))"

subsection \<open>gatherInstances and Instances\<close>

definition ec2_Instances :: "env \<Rightarrow> Filter \<Rightarrow> world \<Rightarrow> (error + Reservation list) \<times> world" where
  "ec2_Instances e flt w = (Instances_resp e w flt, w @ [InstancesCall flt])"

text \<open>
  The first loop of \<^verbatim>\<open>gatherInstances\<close> (lines 209 to 214): the ids of the empty slots.
  \<^verbatim>\<open>ids[i]\<close> panics at an empty slot beyond the end of \<^verbatim>\<open>ids\<close>: the result is \<open>None\<close>.
\<close>

fun need_ids :: "string list \<Rightarrow> Instance option list \<Rightarrow> string list option" where
  "need_ids ids [] = Some []"
| "need_ids [] (None # insts) = None"
| "need_ids [] (Some x # insts) = need_ids [] insts"
| "need_ids (i # ids) (None # insts) =
     (case need_ids ids insts of None \<Rightarrow> None | Some need \<Rightarrow> Some (i # need))"
| "need_ids (i # ids) (Some x # insts) = need_ids ids insts"

text \<open>
  The two inner loops (lines 233 to 242) for one id, over the instances of all
  reservations in the order of the response: every match overwrites the slot and is
  counted.
\<close>

definition scan_response :: "string \<Rightarrow> Instance list \<Rightarrow> Instance option \<times> nat \<Rightarrow> Instance option \<times> nat" where
  "scan_response i found =
     fold (\<lambda>inst (slot, n). if InstanceId inst = i then (Some inst, n + 1) else (slot, n)) found"

text \<open>
  The outer loop (lines 229 to 243) over \<^verbatim>\<open>ids\<close> and the slots: a filled slot is skipped,
  and \<^verbatim>\<open>insts[i]\<close> panics when the slots end before the ids. The result is the slots as
  written so far, the counter, and whether the loop has panicked: the slots before the
  panic stay written in the caller's slice.
\<close>

fun fill_slots ::
  "string list \<Rightarrow> Instance option list \<Rightarrow> Instance list \<Rightarrow> nat \<Rightarrow> Instance option list \<times> nat \<times> bool" where
  "fill_slots [] insts found n = (insts, n, False)"
| "fill_slots (i # ids) [] found n = ([], n, True)"
| "fill_slots (i # ids) (Some x # insts) found n =
     (let (insts', n', panicked) = fill_slots ids insts found n
      in (Some x # insts', n', panicked))"
| "fill_slots (i # ids) (None # insts) found n =
     (let (slot, n1) = scan_response i found (None, n);
          (insts', n', panicked) = fill_slots ids insts found n1
      in (slot # insts', n', panicked))"

text \<open>
  \<^verbatim>\<open>gatherInstances\<close> writes into the caller's slice: the slots after the call are part of
  the result.
\<close>

definition gatherInstances ::
  "env \<Rightarrow> string list \<Rightarrow> Instance option list \<Rightarrow> world \<Rightarrow> unit result \<times> Instance option list \<times> world" where
  "gatherInstances e ids insts w =
     (case need_ids ids insts of
        None \<Rightarrow> (Panic, insts, w)
      | Some need \<Rightarrow>
          if length need = 0 then (Ok (), insts, w)
          else
            (let flt = [(''instance-state-name'', [''pending'', ''running'']),
                        (''group-name'', [groupName e]),
                        (''instance-id'', need)];
                 (resp, w1) = ec2_Instances e flt w
             in case resp of
                  Inl err \<Rightarrow> (Err err, insts, w1)
                | Inr reservations \<Rightarrow>
                    (let (insts', n, panicked) = fill_slots ids insts (concat reservations) 0
                     in if panicked then (Panic, insts', w1)
                        else if n < length ids then (Err ErrMissingInstance, insts', w1)
                        else (Ok (), insts', w1))))"



subsection \<open>Destroy\<close>




section \<open>Vocabulary of the properties\<close>

text \<open>
  The definitions of this section are not part of ec2.go: they say in the words of the
  specification what the functions above are compared with.
\<close>

text \<open>A not-found error of an individual terminate request counts as success.\<close>

definition swallow_not_found :: "error option \<Rightarrow> error option" where
  "swallow_not_found err = (if ec2ErrCode err = ''InvalidInstanceID.NotFound'' then None else err)"

text \<open>The first error of a list of results, \<open>None\<close> when every one is a success.\<close>

fun first_error :: "error option list \<Rightarrow> error option" where
  "first_error [] = None"
| "first_error (Some x # errs) = Some x"
| "first_error (None # errs) = first_error errs"

text \<open>
  The answers of the provider to one terminate request per id, in the order of the ids,
  starting at history \<open>w\<close>.
\<close>

fun individual_errors :: "env \<Rightarrow> string list \<Rightarrow> world \<Rightarrow> error option list" where
  "individual_errors e [] w = []"
| "individual_errors e (i # ids) w =
     TerminateInstances_resp e w [i] # individual_errors e ids (w @ [TerminateInstancesCall [i]])"

text \<open>The error of a response, \<open>None\<close> for a success.\<close>

definition resp_err :: "error + 'a \<Rightarrow> error option" where
  "resp_err r = (case r of Inl err \<Rightarrow> Some err | Inr x \<Rightarrow> None)"

subsection \<open>Concrete environments\<close>

definition k_ssh :: permKey where
  "k_ssh = \<lparr>protocol = ''tcp'', fromPort = 22, toPort = 22, groupId = '''', ipAddr = ''0.0.0.0/0''\<rparr>"

definition k_zk :: permKey where
  "k_zk = \<lparr>protocol = ''tcp'', fromPort = 2181, toPort = 2181, groupId = '''', ipAddr = ''0.0.0.0/0''\<rparr>"

definition k_peer :: permKey where
  "k_peer = \<lparr>protocol = ''tcp'', fromPort = 80, toPort = 80, groupId = ''sg-7'', ipAddr = ''''\<rparr>"

definition inst_1 :: Instance where
  "inst_1 = \<lparr>InstanceId = ''i-1'', DNSName = ''''\<rparr>"

definition inst_2 :: Instance where
  "inst_2 = \<lparr>InstanceId = ''i-2'', DNSName = ''''\<rparr>"


text \<open>
  A new environment: no state is stored, every group is new, the first \<^verbatim>\<open>RunInstances\<close>
  does not see the new groups yet, saving the state fails and so does every terminate
  request.
\<close>

definition fresh :: env where
  "fresh = \<lparr> env_name = ''e'', shortRetries = (\<lambda>w. 3),
     mapRange = (\<lambda>w s. filter (\<lambda>k. k \<in> s) [k_zk, k_peer, k_ssh]),
     loadState_resp = (\<lambda>w. Inl (S3Error 404 ''NoSuchKey'')),
     saveState_resp = (\<lambda>w s. Some (S3Error 500 ''InternalError'')),
     deleteState_resp = (\<lambda>w. None),
     FindImageSpec_resp = (\<lambda>w. Inr ''ami-1''),
     CreateSecurityGroup_resp = (\<lambda>w n d. Inr \<lparr>sg_Id = ''sg-'' @ n, sg_Name = n\<rparr>),
     SecurityGroups_resp = (\<lambda>w ns. Inr []),
     RevokeSecurityGroup_resp = (\<lambda>w g ps. None),
     AuthorizeSecurityGroup_resp = (\<lambda>w g ps. None),
     RunInstances_resp = (\<lambda>w r. if RunInstancesCall r \<in> set w then Inr [inst_1]
                                  else Inl (EC2Error ''InvalidGroup.NotFound'' '''')),
     Instances_resp = (\<lambda>w f. Inr []),
     TerminateInstances_resp = (\<lambda>w ids. Some (OtherError ''connection reset'')) \<rparr>"

definition fresh_groups :: "SecurityGroup list" where
  "fresh_groups = [\<lparr>sg_Id = ''sg-juju-e'', sg_Name = ''juju-e''\<rparr>,
                   \<lparr>sg_Id = ''sg-juju-e-0'', sg_Name = ''juju-e-0''\<rparr>]"

definition fresh_setup :: world where
  "fresh_setup =
     [CreateSecurityGroupCall ''juju-e'' ''juju group'',
      AuthorizeSecurityGroupCall \<lparr>sg_Id = ''sg-juju-e'', sg_Name = ''juju-e''\<rparr>
        [\<lparr>Protocol = ''tcp'', FromPort = 2181, ToPort = 2181,
            SourceIPs = [''0.0.0.0/0''], SourceGroups = []\<rparr>,
         \<lparr>Protocol = ''tcp'', FromPort = 22, ToPort = 22,
            SourceIPs = [''0.0.0.0/0''], SourceGroups = []\<rparr>],
      CreateSecurityGroupCall ''juju-e-0'' ''juju group'']"

definition fresh_req :: RunInstances where
  "fresh_req = \<lparr>ImageId = ''ami-1'', MinCount = 1, MaxCount = 1,
                  InstanceType = ''m1.small'', SecurityGroups = fresh_groups\<rparr>"

text \<open>
  The same environment with a stored state that cannot be read back: \<^verbatim>\<open>loadState\<close> fails
  with an error that is not an \<^verbatim>\<open>*s3.Error\<close>, and saving works.
\<close>

definition unreadable :: env where
  "unreadable = fresh\<lparr>loadState_resp := (\<lambda>w. Inl (OtherError ''cannot unmarshal state'')),
                       saveState_resp := (\<lambda>w s. None)\<rparr>"

text \<open>
  An environment whose group exists with other permissions than wanted: ssh from
  anywhere and port 80 from a group.
\<close>

definition demo_group :: SecurityGroup where
  "demo_group = \<lparr>sg_Id = ''sg-1'', sg_Name = ''juju-e''\<rparr>"

definition drifted :: env where
  "drifted = fresh\<lparr>
     CreateSecurityGroup_resp := (\<lambda>w n d. Inl (EC2Error ''InvalidGroup.Duplicate'' '''')),
     SecurityGroups_resp := (\<lambda>w ns. Inr [\<lparr>sgi_SecurityGroup = demo_group, sgi_Description = ''other'',
        sgi_IPPerms = [\<lparr>Protocol = ''tcp'', FromPort = 22, ToPort = 22,
                         SourceIPs = [''0.0.0.0/0''], SourceGroups = []\<rparr>,
                       \<lparr>Protocol = ''tcp'', FromPort = 80, ToPort = 80, SourceIPs = [],
                         SourceGroups = [\<lparr>usg_Id = ''sg-7'', usg_Name = ''web'', usg_OwnerId = ''42''\<rparr>]\<rparr>]\<rparr>])\<rparr>"

text \<open>
  An environment with the instances \<open>i-1\<close> and \<open>i-2\<close> listed, where \<open>i-2\<close> and \<open>i-3\<close> are
  already gone for a terminate request: a request naming one of them fails as a whole.
\<close>

definition running :: env where
  "running = fresh\<lparr>
     shortRetries := (\<lambda>w. 1),
     Instances_resp := (\<lambda>w f. Inr [[inst_1], [inst_2]]),
     TerminateInstances_resp := (\<lambda>w ids.
       if ids = [''i-1''] then None else Some (EC2Error ''InvalidInstanceID.NotFound'' ''''))\<rparr>"

text \<open>
  An environment in which a listing shows \<open>i-2\<close> only, as for a second pass that asks for
  \<open>i-2\<close> after \<open>i-1\<close> was found by the first.
\<close>

definition second_pass :: env where
  "second_pass = fresh\<lparr>Instances_resp := (\<lambda>w f. Inr [[inst_2]])\<rparr>"


text \<open>The environment \<open>drifted\<close> with a provider that refuses every revoke request.\<close>

definition revoke_fails :: env where
  "revoke_fails = drifted\<lparr>
     RevokeSecurityGroup_resp := (\<lambda>w g ps. Some (EC2Error ''RequestLimitExceeded'' ''''))\<rparr>"

section \<open>Properties\<close>

subsection \<open>The concrete environments, field by field\<close>

lemma fresh_fields [simp]:
  "env_name fresh = ''e''"
  "shortRetries fresh w = 3"
  "mapRange fresh = (\<lambda>w s. filter (\<lambda>k. k \<in> s) [k_zk, k_peer, k_ssh])"
  "loadState_resp fresh w = Inl (S3Error 404 ''NoSuchKey'')"
  "saveState_resp fresh w st = Some (S3Error 500 ''InternalError'')"
  "FindImageSpec_resp fresh w = Inr ''ami-1''"
  "CreateSecurityGroup_resp fresh = (\<lambda>w n d. Inr \<lparr>sg_Id = ''sg-'' @ n, sg_Name = n\<rparr>)"
  "AuthorizeSecurityGroup_resp fresh = (\<lambda>w g ps. None)"
  "RunInstances_resp fresh w r = (if RunInstancesCall r \<in> set w then Inr [inst_1]
                                  else Inl (EC2Error ''InvalidGroup.NotFound'' ''''))"
  "TerminateInstances_resp fresh w ids = Some (OtherError ''connection reset'')"
  by (simp_all add: fresh_def)

lemma unreadable_fields [simp]:
  "env_name unreadable = ''e''"
  "shortRetries unreadable w = 3"
  "mapRange unreadable = (\<lambda>w s. filter (\<lambda>k. k \<in> s) [k_zk, k_peer, k_ssh])"
  "loadState_resp unreadable w = Inl (OtherError ''cannot unmarshal state'')"
  "saveState_resp unreadable w st = None"
  "FindImageSpec_resp unreadable w = Inr ''ami-1''"
  "CreateSecurityGroup_resp unreadable = (\<lambda>w n d. Inr \<lparr>sg_Id = ''sg-'' @ n, sg_Name = n\<rparr>)"
  "AuthorizeSecurityGroup_resp unreadable = (\<lambda>w g ps. None)"
  "RunInstances_resp unreadable w r = (if RunInstancesCall r \<in> set w then Inr [inst_1]
                                  else Inl (EC2Error ''InvalidGroup.NotFound'' ''''))"
  by (simp_all add: unreadable_def fresh_def)

lemma drifted_fields [simp]:
  "mapRange drifted = (\<lambda>w s. filter (\<lambda>k. k \<in> s) [k_zk, k_peer, k_ssh])"
  "CreateSecurityGroup_resp drifted w n d = Inl (EC2Error ''InvalidGroup.Duplicate'' '''')"
  "SecurityGroups_resp drifted w ns = Inr [\<lparr>sgi_SecurityGroup = demo_group, sgi_Description = ''other'',
        sgi_IPPerms = [\<lparr>Protocol = ''tcp'', FromPort = 22, ToPort = 22,
                         SourceIPs = [''0.0.0.0/0''], SourceGroups = []\<rparr>,
                       \<lparr>Protocol = ''tcp'', FromPort = 80, ToPort = 80, SourceIPs = [],
                         SourceGroups = [\<lparr>usg_Id = ''sg-7'', usg_Name = ''web'', usg_OwnerId = ''42''\<rparr>]\<rparr>]\<rparr>]"
  "RevokeSecurityGroup_resp drifted w g ps = None"
  "AuthorizeSecurityGroup_resp drifted w g ps = None"
  by (simp_all add: drifted_def fresh_def)

lemma revoke_fails_fields [simp]:
  "mapRange revoke_fails = (\<lambda>w s. filter (\<lambda>k. k \<in> s) [k_zk, k_peer, k_ssh])"
  "CreateSecurityGroup_resp revoke_fails w n d = Inl (EC2Error ''InvalidGroup.Duplicate'' '''')"
  "SecurityGroups_resp revoke_fails w ns = SecurityGroups_resp drifted w ns"
  "RevokeSecurityGroup_resp revoke_fails w g ps = Some (EC2Error ''RequestLimitExceeded'' '''')"
  by (simp_all add: revoke_fails_def drifted_def fresh_def)

lemma running_fields [simp]:
  "env_name running = ''e''"
  "shortRetries running w = 1"
  "Instances_resp running w f = Inr [[inst_1], [inst_2]]"
  "TerminateInstances_resp running w ids =
     (if ids = [''i-1''] then None else Some (EC2Error ''InvalidInstanceID.NotFound'' ''''))"
  "deleteState_resp running w = None"
  by (simp_all add: running_def fresh_def)

subsection \<open>terminateInstances\<close>

lemma terminate_bulk_exhausted:
  "(\<And>k. k < n \<Longrightarrow> ec2ErrCode (TerminateInstances_resp e (w @ replicate k (TerminateInstancesCall ids)) ids)
        = ''InvalidInstanceID.NotFound'') \<Longrightarrow>
   terminate_bulk e ids n err w =
     (Inr (if n = 0 then err
           else TerminateInstances_resp e (w @ replicate (n - 1) (TerminateInstancesCall ids)) ids),
      w @ replicate n (TerminateInstancesCall ids))"
proof (induction n arbitrary: err w)
  case 0
  then show ?case by simp
next
  case (Suc n)
  let ?c = "TerminateInstancesCall ids"
  have first: "ec2ErrCode (TerminateInstances_resp e w ids) = ''InvalidInstanceID.NotFound''"
    using Suc.prems [of 0] by simp
  have rest: "\<And>k. k < n \<Longrightarrow>
      ec2ErrCode (TerminateInstances_resp e ((w @ [?c]) @ replicate k ?c) ids) = ''InvalidInstanceID.NotFound''"
    using Suc.prems [of "Suc _"] by simp
  have step: "terminate_bulk e ids (Suc n) err w =
      terminate_bulk e ids n (TerminateInstances_resp e w ids) (w @ [?c])"
    using first
    by (cases "TerminateInstances_resp e w ids") (simp_all add: ec2_TerminateInstances_def)
  show ?case
  proof (cases n)
    case 0
    then show ?thesis using step by simp
  next
    case (Suc m)
    then show ?thesis
      using step Suc.IH [OF rest, where err = "TerminateInstances_resp e w ids"]
      by (simp add: replicate_app_Cons_same)
  qed
qed

lemma terminate_bulk_trace:
  "terminate_bulk e ids n err w = (r, w') \<Longrightarrow>
   \<exists>k \<le> n. w' = w @ replicate k (TerminateInstancesCall ids) \<and> (0 < n \<longrightarrow> 0 < k)"
proof (induction n arbitrary: err w)
  case 0
  then show ?case by simp
next
  case (Suc n)
  let ?c = "TerminateInstancesCall ids"
  let ?err = "TerminateInstances_resp e w ids"
  show ?case
  proof (cases "?err = None \<or> ec2ErrCode ?err \<noteq> ''InvalidInstanceID.NotFound''")
    case True
    then have "w' = w @ replicate 1 ?c"
      using Suc.prems by (auto simp: ec2_TerminateInstances_def)
    then show ?thesis by (intro exI [of _ 1]) simp
  next
    case False
    then have "terminate_bulk e ids n ?err (w @ [?c]) = (r, w')"
      using Suc.prems by (auto simp: ec2_TerminateInstances_def)
    from Suc.IH [OF this] obtain k where "k \<le> n" "w' = (w @ [?c]) @ replicate k ?c"
      by blast
    then show ?thesis
      by (intro exI [of _ "Suc k"]) (simp add: replicate_app_Cons_same)
  qed
qed

lemma terminate_each_eq:
  "terminate_each e ids firstErr w =
     ((case firstErr of Some x \<Rightarrow> Some x
       | None \<Rightarrow> first_error (map swallow_not_found (individual_errors e ids w))),
      w @ map (\<lambda>i. TerminateInstancesCall [i]) ids)"
proof (induction ids arbitrary: firstErr w)
  case Nil
  then show ?case by (simp split: option.splits)
next
  case (Cons i ids)
  show ?case
    by (cases "swallow_not_found (TerminateInstances_resp e w [i])")
       (simp_all add: Cons.IH ec2_TerminateInstances_def swallow_not_found_def
          split: option.splits if_splits)
qed

text \<open>
  Claim C4. For two or more ids, when every bulk request of the retry budget (the first
  attempt and the \<open>shortRetries\<close> that follow) fails with the code
  \<^verbatim>\<open>InvalidInstanceID.NotFound\<close>, \<^verbatim>\<open>terminateInstances\<close> sends one request per id in the
  order of the input, takes a not-found answer to one of them as success, and returns the
  first of the remaining errors, or success when there is none.
\<close>

theorem terminateInstances_falls_back_to_each:
  assumes len: "2 \<le> length ids"
    and nf: "\<forall>k \<le> shortRetries e w.
       ec2ErrCode (TerminateInstances_resp e (w @ replicate k (TerminateInstancesCall ids)) ids)
         = ''InvalidInstanceID.NotFound''"
  shows "terminateInstances e ids w =
    (first_error (map swallow_not_found
       (individual_errors e ids (w @ replicate (Suc (shortRetries e w)) (TerminateInstancesCall ids)))),
     w @ replicate (Suc (shortRetries e w)) (TerminateInstancesCall ids)
       @ map (\<lambda>i. TerminateInstancesCall [i]) ids)"
proof -
  have "\<And>k. k < Suc (shortRetries e w) \<Longrightarrow>
      ec2ErrCode (TerminateInstances_resp e (w @ replicate k (TerminateInstancesCall ids)) ids)
        = ''InvalidInstanceID.NotFound''"
    using nf by simp
  from terminate_bulk_exhausted [OF this, where err = None]
  have bulk: "terminate_bulk e ids (Suc (shortRetries e w)) None w =
     (Inr (TerminateInstances_resp e (w @ replicate (shortRetries e w) (TerminateInstancesCall ids)) ids),
      w @ replicate (Suc (shortRetries e w)) (TerminateInstancesCall ids))"
    by (simp del: terminate_bulk.simps replicate.simps)
  have "ids \<noteq> []" "length ids \<noteq> 1"
    using len by auto
  then show ?thesis
    unfolding terminateInstances_def bulk
    by (simp add: terminate_each_eq del: replicate.simps)
qed

theorem terminateInstances_falls_back_witness:
  "terminateInstances running [''i-1'', ''i-2''] [] =
     (None, [TerminateInstancesCall [''i-1'', ''i-2''], TerminateInstancesCall [''i-1'', ''i-2''],
             TerminateInstancesCall [''i-1''], TerminateInstancesCall [''i-2'']])"
  using terminateInstances_falls_back_to_each [of "[''i-1'', ''i-2'']" running "[]"]
  by (simp add: swallow_not_found_def)

text \<open>
  Claim C9. For a single id, when every bulk request of the retry budget fails with the
  code \<^verbatim>\<open>InvalidInstanceID.NotFound\<close>, \<^verbatim>\<open>terminateInstances\<close> returns the not-found error
  of the last attempt, not success, and sends nothing but the bulk requests: the requests
  per id are for two or more ids only.
\<close>

theorem terminateInstances_single_not_found:
  assumes nf: "\<forall>k \<le> shortRetries e w.
       ec2ErrCode (TerminateInstances_resp e (w @ replicate k (TerminateInstancesCall [i])) [i])
         = ''InvalidInstanceID.NotFound''"
  shows "terminateInstances e [i] w =
    (TerminateInstances_resp e (w @ replicate (shortRetries e w) (TerminateInstancesCall [i])) [i],
     w @ replicate (Suc (shortRetries e w)) (TerminateInstancesCall [i]))
    \<and> ec2ErrCode (fst (terminateInstances e [i] w)) = ''InvalidInstanceID.NotFound''
    \<and> fst (terminateInstances e [i] w) \<noteq> None"
proof -
  have "\<And>k. k < Suc (shortRetries e w) \<Longrightarrow>
      ec2ErrCode (TerminateInstances_resp e (w @ replicate k (TerminateInstancesCall [i])) [i])
        = ''InvalidInstanceID.NotFound''"
    using nf by simp
  from terminate_bulk_exhausted [OF this, where err = None]
  have bulk: "terminate_bulk e [i] (Suc (shortRetries e w)) None w =
     (Inr (TerminateInstances_resp e (w @ replicate (shortRetries e w) (TerminateInstancesCall [i])) [i]),
      w @ replicate (Suc (shortRetries e w)) (TerminateInstancesCall [i]))"
    by (simp del: terminate_bulk.simps replicate.simps)
  have eq: "terminateInstances e [i] w =
    (TerminateInstances_resp e (w @ replicate (shortRetries e w) (TerminateInstancesCall [i])) [i],
     w @ replicate (Suc (shortRetries e w)) (TerminateInstancesCall [i]))"
    unfolding terminateInstances_def bulk by simp
  have last: "ec2ErrCode (TerminateInstances_resp e (w @ replicate (shortRetries e w) (TerminateInstancesCall [i])) [i])
        = ''InvalidInstanceID.NotFound''"
    using nf by simp
  then have "TerminateInstances_resp e (w @ replicate (shortRetries e w) (TerminateInstancesCall [i])) [i] \<noteq> None"
    by (cases "TerminateInstances_resp e (w @ replicate (shortRetries e w) (TerminateInstancesCall [i])) [i]") auto
  then show ?thesis using eq last by simp
qed

theorem terminateInstances_single_witness:
  "terminateInstances running [''i-2''] [] =
     (Some (EC2Error ''InvalidInstanceID.NotFound'' ''''),
      [TerminateInstancesCall [''i-2''], TerminateInstancesCall [''i-2'']])"
  using terminateInstances_single_not_found [of running "[]" "''i-2''"]
  by simp

subsection \<open>Permission sets\<close>

lemma fold_insert_image: "fold (\<lambda>x m. insert (f x) m) xs m = f ` set xs \<union> m"
  by (induction xs arbitrary: m) auto

lemma newPermSet_step_eq:
  "newPermSet_step p m =
     m \<union> (\<lambda>g. \<lparr>protocol = Protocol p, fromPort = FromPort p, toPort = ToPort p,
                  groupId = usg_Id g, ipAddr = ''''\<rparr>) ` set (SourceGroups p)
       \<union> (\<lambda>ip. \<lparr>protocol = Protocol p, fromPort = FromPort p, toPort = ToPort p,
                   groupId = '''', ipAddr = ip\<rparr>) ` set (SourceIPs p)"
  by (auto simp: newPermSet_step_def Let_def fold_insert_image)

lemma newPermSet_step_ipPerms_step:
  "\<not> (groupId k \<noteq> '''' \<and> ipAddr k \<noteq> '''') \<Longrightarrow> newPermSet_step (ipPerms_step k) m = insert k m"
  by (cases k) (auto simp: newPermSet_step_eq ipPerms_step_def Let_def)

lemma fold_newPermSet_step_ipPerms_step:
  "(\<And>k. k \<in> set ks \<Longrightarrow> \<not> (groupId k \<noteq> '''' \<and> ipAddr k \<noteq> '''')) \<Longrightarrow>
   fold newPermSet_step (map ipPerms_step ks) m = set ks \<union> m"
  by (induction ks arbitrary: m) (auto simp: newPermSet_step_ipPerms_step)

text \<open>A key made by \<^verbatim>\<open>newPermSet\<close> never has both a group and an address.\<close>

lemma fold_newPermSet_step_one_source:
  "fold newPermSet_step ps m \<subseteq> m \<union> {k. groupId k = '''' \<or> ipAddr k = ''''}"
proof (induction ps arbitrary: m)
  case Nil
  then show ?case by simp
next
  case (Cons p ps)
  have "newPermSet_step p m \<subseteq> m \<union> {k. groupId k = '''' \<or> ipAddr k = ''''}"
    by (auto simp: newPermSet_step_eq)
  with Cons.IH [of "newPermSet_step p m"] show ?case by auto
qed

lemma newPermSet_one_source: "k \<in> newPermSet ps \<Longrightarrow> groupId k = '''' \<or> ipAddr k = ''''"
  using fold_newPermSet_step_one_source [of ps "{}"] by (auto simp: newPermSet_def)

text \<open>
  Claim C10. For a permission set \<open>m\<close> in which no key has both a source group id and a
  source address, flattening the slice that \<^verbatim>\<open>ipPerms\<close> makes of \<open>m\<close> gives \<open>m\<close> back.
  The \<^verbatim>\<open>range\<close> loop of \<^verbatim>\<open>ipPerms\<close> visits the keys of \<open>m\<close> and nothing else, in any order.
\<close>

theorem newPermSet_ipPerms:
  assumes one: "\<forall>k \<in> m. \<not> (groupId k \<noteq> '''' \<and> ipAddr k \<noteq> '''')"
    and range: "set (mapRange e w m) = m"
  shows "newPermSet (ipPerms e w m) = m"
  using fold_newPermSet_step_ipPerms_step [of "mapRange e w m" "{}"] one range
  by (simp add: newPermSet_def ipPerms_def)

theorem newPermSet_ipPerms_witness:
  "newPermSet (ipPerms drifted [] {k_peer, k_zk}) = {k_peer, k_zk}"
  using newPermSet_ipPerms [of "{k_peer, k_zk}" drifted "[]"]
  by (auto simp: k_peer_def k_zk_def k_ssh_def)

subsection \<open>ensureGroup\<close>

lemma ensureGroup_have_one_source:
  "ensureGroup_have e name w = (Ok (g, A), w1) \<Longrightarrow> k \<in> A \<Longrightarrow> groupId k = '''' \<or> ipAddr k = ''''"
  by (auto simp: ensureGroup_have_def Let_def ec2_CreateSecurityGroup_def ec2_SecurityGroups_def
      split: sum.splits if_splits list.splits dest: newPermSet_one_source)

text \<open>The group and its current permissions, from the answers of the provider.\<close>

lemma ensureGroup_have_new:
  "CreateSecurityGroup_resp e w name ''juju group'' = Inr g \<Longrightarrow>
   ensureGroup_have e name w = (Ok (g, {}), w @ [CreateSecurityGroupCall name ''juju group''])"
  by (simp add: ensureGroup_have_def ec2_CreateSecurityGroup_def)

lemma ensureGroup_have_duplicate:
  "CreateSecurityGroup_resp e w name ''juju group'' = Inl cerr \<Longrightarrow>
   ec2ErrCode (Some cerr) = ''InvalidGroup.Duplicate'' \<Longrightarrow>
   SecurityGroups_resp e (w @ [CreateSecurityGroupCall name ''juju group'']) [name] = Inr (gi # others) \<Longrightarrow>
   ensureGroup_have e name w =
     (Ok (sgi_SecurityGroup gi, newPermSet (sgi_IPPerms gi)),
      w @ [CreateSecurityGroupCall name ''juju group'', SecurityGroupsCall [name]])"
  by (simp add: ensureGroup_have_def ec2_CreateSecurityGroup_def ec2_SecurityGroups_def)

text \<open>
  The requests and the result of \<^verbatim>\<open>ensureGroup\<close> once the group is resolved with the
  permissions \<open>A\<close>: a failed revoke returns before the authorize.
\<close>

lemma ensureGroup_outcome:
  assumes "have": "ensureGroup_have e name w = (Ok (g, A), w1)"
    and want: "B = newPermSet perms"
  shows "ensureGroup e name perms w =
     (let rv = (if A - B = {} then [] else [RevokeSecurityGroupCall g (ipPerms e w1 (A - B))]);
          rerr = (if A - B = {} then None
                  else RevokeSecurityGroup_resp e w1 g (ipPerms e w1 (A - B)));
          au = (if rerr \<noteq> None \<or> B - A = {} then []
                else [AuthorizeSecurityGroupCall g (ipPerms e (w1 @ rv) (B - A))]);
          aerr = (if rerr \<noteq> None \<or> B - A = {} then None
                  else AuthorizeSecurityGroup_resp e (w1 @ rv) g (ipPerms e (w1 @ rv) (B - A)))
      in ((case rerr of
             Some err \<Rightarrow> Err (ErrorfErr ''cannot revoke security group: %v'' err)
           | None \<Rightarrow>
               (case aerr of
                  Some err \<Rightarrow> Err (ErrorfErr ''cannot authorize securityGroup: %v'' err)
                | None \<Rightarrow> Ok g)),
          w1 @ rv @ au))"
proof -
  have diffA: "{p \<in> A. p \<notin> B} = A - B" and diffB: "{p \<in> B. p \<notin> A} = B - A"
    by auto
  have run: "ensureGroup e name perms w = ensureGroup_converge e g B A w1"
    using "have" want by (simp add: ensureGroup_def)
  show ?thesis
    unfolding run
    by (auto simp: ensureGroup_converge_def diffA diffB Let_def ec2_RevokeSecurityGroup_def
        ec2_AuthorizeSecurityGroup_def split: option.splits)
qed

text \<open>
  Claim C2, as amended. Let the group \<open>g\<close> be resolved with the current permissions \<open>A\<close>:
  either the provider creates it, and it has none, or the provider reports a duplicate
  and \<open>A\<close> is the flattened permissions of the first group of the answer to the fetch. Let
  \<open>B\<close> be the flattened desired permissions. After the requests that resolve the group,
  \<^verbatim>\<open>ensureGroup\<close> sends one revoke request unless \<open>A - B\<close> is empty, whose permissions
  flatten to \<open>A - B\<close>, one for each key. When that request fails, \<^verbatim>\<open>ensureGroup\<close> returns
  the error as \<^verbatim>\<open>cannot revoke security group\<close> and sends no authorize request.
  Otherwise it sends one authorize request unless \<open>B - A\<close> is empty, whose permissions
  flatten to \<open>B - A\<close>, and nothing else; it returns the group, or the error of the
  authorize request. It sends neither request exactly when \<open>A = B\<close>: a second call with
  the same desired permissions, on a group that has them, changes nothing. The \<^verbatim>\<open>range\<close>
  loops visit each key of their map once.
\<close>

theorem ensureGroup_revokes_then_authorizes_the_difference:
  assumes resolved:
      "(CreateSecurityGroup_resp e w name ''juju group'' = Inr g \<and> A = {}
          \<and> w1 = w @ [CreateSecurityGroupCall name ''juju group''])
       \<or> (\<exists>cerr gi others.
             CreateSecurityGroup_resp e w name ''juju group'' = Inl cerr
             \<and> ec2ErrCode (Some cerr) = ''InvalidGroup.Duplicate''
             \<and> SecurityGroups_resp e (w @ [CreateSecurityGroupCall name ''juju group'']) [name]
                 = Inr (gi # others)
             \<and> g = sgi_SecurityGroup gi \<and> A = newPermSet (sgi_IPPerms gi)
             \<and> w1 = w @ [CreateSecurityGroupCall name ''juju group'', SecurityGroupsCall [name]])"
    and want: "B = newPermSet perms"
    and rangeA: "\<forall>h. set (mapRange e h (A - B)) = A - B \<and> distinct (mapRange e h (A - B))"
    and rangeB: "\<forall>h. set (mapRange e h (B - A)) = B - A \<and> distinct (mapRange e h (B - A))"
  shows "(let rv = (if A - B = {} then []
                    else [RevokeSecurityGroupCall g (ipPerms e w1 (A - B))]);
              rerr = (if A - B = {} then None
                      else RevokeSecurityGroup_resp e w1 g (ipPerms e w1 (A - B)));
              au = (if rerr \<noteq> None \<or> B - A = {} then []
                    else [AuthorizeSecurityGroupCall g (ipPerms e (w1 @ rv) (B - A))]);
              aerr = (if rerr \<noteq> None \<or> B - A = {} then None
                      else AuthorizeSecurityGroup_resp e (w1 @ rv) g (ipPerms e (w1 @ rv) (B - A)))
          in snd (ensureGroup e name perms w) = w1 @ rv @ au
             \<and> fst (ensureGroup e name perms w) =
                 (case rerr of
                    Some err \<Rightarrow> Err (ErrorfErr ''cannot revoke security group: %v'' err)
                  | None \<Rightarrow>
                      (case aerr of
                         Some err \<Rightarrow> Err (ErrorfErr ''cannot authorize securityGroup: %v'' err)
                       | None \<Rightarrow> Ok g))
             \<and> newPermSet (ipPerms e w1 (A - B)) = A - B
             \<and> length (ipPerms e w1 (A - B)) = card (A - B)
             \<and> newPermSet (ipPerms e (w1 @ rv) (B - A)) = B - A
             \<and> length (ipPerms e (w1 @ rv) (B - A)) = card (B - A)
             \<and> (snd (ensureGroup e name perms w) = w1) = (A = B))"
proof -
  have "have": "ensureGroup_have e name w = (Ok (g, A), w1)"
    using resolved ensureGroup_have_new [of e w name g]
    by (auto dest: ensureGroup_have_duplicate)
  have oneA: "\<forall>k \<in> A - B. \<not> (groupId k \<noteq> '''' \<and> ipAddr k \<noteq> '''')"
    using ensureGroup_have_one_source [OF "have"] by auto
  have oneB: "\<forall>k \<in> B - A. \<not> (groupId k \<noteq> '''' \<and> ipAddr k \<noteq> '''')"
    using newPermSet_one_source [of _ perms] want by auto
  have setA: "\<And>h. newPermSet (ipPerms e h (A - B)) = A - B"
    using fold_newPermSet_step_ipPerms_step [of "mapRange e _ (A - B)" "{}"] oneA rangeA
    by (simp add: newPermSet_def ipPerms_def)
  have setB: "\<And>h. newPermSet (ipPerms e h (B - A)) = B - A"
    using fold_newPermSet_step_ipPerms_step [of "mapRange e _ (B - A)" "{}"] oneB rangeB
    by (simp add: newPermSet_def ipPerms_def)
  have lenA: "\<And>h. length (ipPerms e h (A - B)) = card (A - B)"
    using rangeA distinct_card [of "mapRange e _ (A - B)"] by (simp add: ipPerms_def)
  have lenB: "\<And>h. length (ipPerms e h (B - A)) = card (B - A)"
    using rangeB distinct_card [of "mapRange e _ (B - A)"] by (simp add: ipPerms_def)
  let ?rv = "if A - B = {} then [] else [RevokeSecurityGroupCall g (ipPerms e w1 (A - B))]"
  let ?rerr = "if A - B = {} then None
               else RevokeSecurityGroup_resp e w1 g (ipPerms e w1 (A - B))"
  let ?au = "if ?rerr \<noteq> None \<or> B - A = {} then []
             else [AuthorizeSecurityGroupCall g (ipPerms e (w1 @ ?rv) (B - A))]"
  let ?aerr = "if ?rerr \<noteq> None \<or> B - A = {} then None
               else AuthorizeSecurityGroup_resp e (w1 @ ?rv) g (ipPerms e (w1 @ ?rv) (B - A))"
  note out = ensureGroup_outcome [OF "have" want, unfolded Let_def]
  have tr: "snd (ensureGroup e name perms w) = w1 @ ?rv @ ?au"
    unfolding out by simp
  have res: "fst (ensureGroup e name perms w) =
      (case ?rerr of
         Some err \<Rightarrow> Err (ErrorfErr ''cannot revoke security group: %v'' err)
       | None \<Rightarrow>
           (case ?aerr of
              Some err \<Rightarrow> Err (ErrorfErr ''cannot authorize securityGroup: %v'' err)
            | None \<Rightarrow> Ok g))"
    unfolding out by simp
  have "(w1 @ ?rv @ ?au = w1) = (A - B = {} \<and> B - A = {})"
    by simp
  also have "\<dots> = (A = B)"
    by auto
  finally have noop: "(snd (ensureGroup e name perms w) = w1) = (A = B)"
    unfolding tr .
  show ?thesis
    unfolding Let_def
    using tr res setA [of w1] lenA [of w1] setB [of "w1 @ ?rv"] lenB [of "w1 @ ?rv"] noop
    by (intro conjI)
qed

lemma drifted_have:
  "CreateSecurityGroup_resp e = CreateSecurityGroup_resp drifted \<Longrightarrow>
   SecurityGroups_resp e = SecurityGroups_resp drifted \<Longrightarrow>
   ensureGroup_have e ''juju-e'' [] =
     (Ok (demo_group, {k_ssh, k_peer}),
      [CreateSecurityGroupCall ''juju-e'' ''juju group'', SecurityGroupsCall [''juju-e'']])"
  by (auto simp: ensureGroup_have_def ec2_CreateSecurityGroup_def ec2_SecurityGroups_def
      newPermSet_def newPermSet_step_eq k_ssh_def k_peer_def)

lemma drifted_want:
  "{k_zk, k_ssh} =
     newPermSet [\<lparr>Protocol = ''tcp'', FromPort = 2181, ToPort = 2181,
                   SourceIPs = [''0.0.0.0/0''], SourceGroups = []\<rparr>,
                 \<lparr>Protocol = ''tcp'', FromPort = 22, ToPort = 22,
                   SourceIPs = [''0.0.0.0/0''], SourceGroups = []\<rparr>]"
  by (auto simp: newPermSet_def newPermSet_step_eq k_ssh_def k_zk_def)

lemma drifted_differences:
  "{k_ssh, k_peer} - {k_zk, k_ssh} = {k_peer}" "{k_zk, k_ssh} - {k_ssh, k_peer} = {k_zk}"
  by (auto simp: k_ssh_def k_zk_def k_peer_def)

theorem ensureGroup_witness:
  "snd (ensureGroup drifted ''juju-e''
          [\<lparr>Protocol = ''tcp'', FromPort = 2181, ToPort = 2181,
               SourceIPs = [''0.0.0.0/0''], SourceGroups = []\<rparr>,
           \<lparr>Protocol = ''tcp'', FromPort = 22, ToPort = 22,
               SourceIPs = [''0.0.0.0/0''], SourceGroups = []\<rparr>] []) =
     [CreateSecurityGroupCall ''juju-e'' ''juju group'', SecurityGroupsCall [''juju-e''],
      RevokeSecurityGroupCall demo_group
        [\<lparr>Protocol = ''tcp'', FromPort = 80, ToPort = 80, SourceIPs = [],
          SourceGroups = [\<lparr>usg_Id = ''sg-7'', usg_Name = '''', usg_OwnerId = ''''\<rparr>]\<rparr>],
      AuthorizeSecurityGroupCall demo_group
        [\<lparr>Protocol = ''tcp'', FromPort = 2181, ToPort = 2181,
          SourceIPs = [''0.0.0.0/0''], SourceGroups = []\<rparr>]]"
proof -
  let ?A = "{k_ssh, k_peer}" and ?B = "{k_zk, k_ssh}"
  let ?w1 = "[CreateSecurityGroupCall ''juju-e'' ''juju group'', SecurityGroupsCall [''juju-e'']]"
  let ?gi = "\<lparr>sgi_SecurityGroup = demo_group, sgi_Description = ''other'',
        sgi_IPPerms = [\<lparr>Protocol = ''tcp'', FromPort = 22, ToPort = 22,
                         SourceIPs = [''0.0.0.0/0''], SourceGroups = []\<rparr>,
                       \<lparr>Protocol = ''tcp'', FromPort = 80, ToPort = 80, SourceIPs = [],
                         SourceGroups = [\<lparr>usg_Id = ''sg-7'', usg_Name = ''web'', usg_OwnerId = ''42''\<rparr>]\<rparr>]\<rparr>"
  have A: "?A = newPermSet (sgi_IPPerms ?gi)"
    by (auto simp: newPermSet_def newPermSet_step_eq k_ssh_def k_peer_def)
  have resolved:
      "(CreateSecurityGroup_resp drifted [] ''juju-e'' ''juju group'' = Inr demo_group \<and> ?A = {}
          \<and> ?w1 = [] @ [CreateSecurityGroupCall ''juju-e'' ''juju group''])
       \<or> (\<exists>cerr gi others.
             CreateSecurityGroup_resp drifted [] ''juju-e'' ''juju group'' = Inl cerr
             \<and> ec2ErrCode (Some cerr) = ''InvalidGroup.Duplicate''
             \<and> SecurityGroups_resp drifted ([] @ [CreateSecurityGroupCall ''juju-e'' ''juju group'']) [''juju-e'']
                 = Inr (gi # others)
             \<and> demo_group = sgi_SecurityGroup gi \<and> ?A = newPermSet (sgi_IPPerms gi)
             \<and> ?w1 = [] @ [CreateSecurityGroupCall ''juju-e'' ''juju group'', SecurityGroupsCall [''juju-e'']])"
    using A
    by (intro disjI2 exI [of _ "EC2Error ''InvalidGroup.Duplicate'' ''''"] exI [of _ ?gi]
        exI [of _ "[]"]) simp
  have rA: "\<forall>h. set (mapRange drifted h (?A - ?B)) = ?A - ?B \<and> distinct (mapRange drifted h (?A - ?B))"
    unfolding drifted_differences by (auto simp: k_ssh_def k_zk_def k_peer_def)
  have rB: "\<forall>h. set (mapRange drifted h (?B - ?A)) = ?B - ?A \<and> distinct (mapRange drifted h (?B - ?A))"
    unfolding drifted_differences by (auto simp: k_ssh_def k_zk_def k_peer_def)
  from ensureGroup_revokes_then_authorizes_the_difference [OF resolved drifted_want rA rB]
  show ?thesis
    unfolding drifted_differences Let_def
    by (simp add: ipPerms_def ipPerms_step_def k_ssh_def k_zk_def k_peer_def)
qed

text \<open>
  Claim C2 as it was stated fails where the revoke request fails: the group has ssh and
  port 80 from a group, ssh and the zookeeper port are wanted, so \<open>B - A\<close> is not empty,
  and after the failed revoke no authorize request is sent.
\<close>

theorem ensureGroup_failed_revoke_counterexample:
  "ensureGroup revoke_fails ''juju-e''
          [\<lparr>Protocol = ''tcp'', FromPort = 2181, ToPort = 2181,
               SourceIPs = [''0.0.0.0/0''], SourceGroups = []\<rparr>,
           \<lparr>Protocol = ''tcp'', FromPort = 22, ToPort = 22,
               SourceIPs = [''0.0.0.0/0''], SourceGroups = []\<rparr>] [] =
     (Err (ErrorfErr ''cannot revoke security group: %v'' (EC2Error ''RequestLimitExceeded'' '''')),
      [CreateSecurityGroupCall ''juju-e'' ''juju group'', SecurityGroupsCall [''juju-e''],
       RevokeSecurityGroupCall demo_group
         [\<lparr>Protocol = ''tcp'', FromPort = 80, ToPort = 80, SourceIPs = [],
           SourceGroups = [\<lparr>usg_Id = ''sg-7'', usg_Name = '''', usg_OwnerId = ''''\<rparr>]\<rparr>]])
   \<and> newPermSet [\<lparr>Protocol = ''tcp'', FromPort = 2181, ToPort = 2181,
                    SourceIPs = [''0.0.0.0/0''], SourceGroups = []\<rparr>,
                  \<lparr>Protocol = ''tcp'', FromPort = 22, ToPort = 22,
                    SourceIPs = [''0.0.0.0/0''], SourceGroups = []\<rparr>]
       - newPermSet [\<lparr>Protocol = ''tcp'', FromPort = 22, ToPort = 22,
                       SourceIPs = [''0.0.0.0/0''], SourceGroups = []\<rparr>,
                     \<lparr>Protocol = ''tcp'', FromPort = 80, ToPort = 80, SourceIPs = [],
                       SourceGroups = [\<lparr>usg_Id = ''sg-7'', usg_Name = ''web'', usg_OwnerId = ''42''\<rparr>]\<rparr>]
       = {k_zk}"
proof -
  have h: "ensureGroup_have revoke_fails ''juju-e'' [] =
      (Ok (demo_group, {k_ssh, k_peer}),
       [CreateSecurityGroupCall ''juju-e'' ''juju group'', SecurityGroupsCall [''juju-e'']])"
    by (rule drifted_have) (simp_all add: fun_eq_iff)
  have A: "newPermSet [\<lparr>Protocol = ''tcp'', FromPort = 22, ToPort = 22,
                       SourceIPs = [''0.0.0.0/0''], SourceGroups = []\<rparr>,
                     \<lparr>Protocol = ''tcp'', FromPort = 80, ToPort = 80, SourceIPs = [],
                       SourceGroups = [\<lparr>usg_Id = ''sg-7'', usg_Name = ''web'', usg_OwnerId = ''42''\<rparr>]\<rparr>]
       = {k_ssh, k_peer}"
    by (auto simp: newPermSet_def newPermSet_step_eq k_ssh_def k_peer_def)
  show ?thesis
    unfolding ensureGroup_outcome [OF h drifted_want] drifted_want [symmetric] A
      drifted_differences Let_def
    by (simp add: ipPerms_def ipPerms_step_def k_ssh_def k_zk_def k_peer_def)
qed

subsection \<open>startInstance\<close>

lemma decimal_0: "decimal 0 = ''0''"
  by (simp add: decimal.simps)

lemma fresh_want:
  "newPermSet [\<lparr>Protocol = ''tcp'', FromPort = zkPort, ToPort = zkPort,
                  SourceIPs = [''0.0.0.0/0''], SourceGroups = []\<rparr>,
               \<lparr>Protocol = ''tcp'', FromPort = 22, ToPort = 22,
                  SourceIPs = [''0.0.0.0/0''], SourceGroups = []\<rparr>] = {k_zk, k_ssh}"
  by (auto simp: newPermSet_def newPermSet_step_eq k_zk_def k_ssh_def zkPort_def)

text \<open>Setting up the groups of machine 0 in an environment where every group is new.\<close>

lemma fresh_setUpGroups:
  "mapRange e = (\<lambda>w s. filter (\<lambda>k. k \<in> s) [k_zk, k_peer, k_ssh]) \<Longrightarrow>
   env_name e = ''e'' \<Longrightarrow>
   CreateSecurityGroup_resp e = (\<lambda>w n d. Inr \<lparr>sg_Id = ''sg-'' @ n, sg_Name = n\<rparr>) \<Longrightarrow>
   AuthorizeSecurityGroup_resp e = (\<lambda>w g ps. None) \<Longrightarrow>
   setUpGroups e 0 w = (Ok fresh_groups, w @ fresh_setup)"
  unfolding setUpGroups_def ensureGroup_def fresh_want
  by (auto simp: ensureGroup_have_def ensureGroup_converge_def ec2_CreateSecurityGroup_def
      ec2_AuthorizeSecurityGroup_def ipPerms_def ipPerms_step_def groupName_def
      machineGroupName_def sprint_int_def decimal_0 fresh_groups_def fresh_setup_def
      k_zk_def k_ssh_def k_peer_def newPermSet_def)

text \<open>
  The loop of \<^verbatim>\<open>startInstance\<close>: when the first \<open>k\<close> answers are group-not-found errors
  and the next one is not, or is the last of the budget, that answer is the result, after
  \<open>k + 1\<close> requests.
\<close>

lemma run_attempts_settles:
  assumes "\<forall>j<k. ec2ErrCode (resp_err (RunInstances_resp e (w @ replicate j (RunInstancesCall req)) req))
             = ''InvalidGroup.NotFound''"
    and "k < n"
    and "Suc k = n \<or> ec2ErrCode (resp_err (RunInstances_resp e (w @ replicate k (RunInstancesCall req)) req))
             \<noteq> ''InvalidGroup.NotFound''"
  shows "run_attempts e req n st w =
     ((case RunInstances_resp e (w @ replicate k (RunInstancesCall req)) req of
         Inl err \<Rightarrow> (None, Some err)
       | Inr insts \<Rightarrow> (Some insts, None)),
      w @ replicate (Suc k) (RunInstancesCall req))"
  using assms
proof (induction k arbitrary: n st w)
  case 0
  then obtain m where n: "n = Suc m" by (cases n) auto
  show ?case
    using 0 unfolding n
    by (cases m; cases "RunInstances_resp e w req")
       (auto simp: ec2_RunInstances_def resp_err_def)
next
  case (Suc k)
  then obtain m where n: "n = Suc m" by (cases n) auto
  let ?c = "RunInstancesCall req"
  have first: "ec2ErrCode (resp_err (RunInstances_resp e w req)) = ''InvalidGroup.NotFound''"
    using Suc.prems(1) by (auto dest: spec [of _ 0])
  then obtain err where err: "RunInstances_resp e w req = Inl err"
    "ec2ErrCode (Some err) = ''InvalidGroup.NotFound''"
    by (cases "RunInstances_resp e w req") (auto simp: resp_err_def)
  have step: "run_attempts e req n st w = run_attempts e req m (None, Some err) (w @ [?c])"
    unfolding n using err by (simp add: ec2_RunInstances_def)
  have a: "\<forall>j<k. ec2ErrCode (resp_err (RunInstances_resp e ((w @ [?c]) @ replicate j ?c) req))
             = ''InvalidGroup.NotFound''"
    using Suc.prems(1) by (auto dest: spec [of _ "Suc _"])
  have b: "k < m" using Suc.prems(2) n by simp
  have c: "Suc k = m \<or> ec2ErrCode (resp_err (RunInstances_resp e ((w @ [?c]) @ replicate k ?c) req))
             \<noteq> ''InvalidGroup.NotFound''"
    using Suc.prems(3) n by auto
  show ?case
    unfolding step using Suc.IH [OF a b c, of "(None, Some err)"]
    by (simp add: replicate_app_Cons_same)
qed

text \<open>
  Claim C7. Once the image is found and the groups are set up, \<^verbatim>\<open>startInstance\<close> repeats
  the \<^verbatim>\<open>RunInstances\<close> request only after an answer with the code
  \<^verbatim>\<open>InvalidGroup.NotFound\<close>, within the budget of the short strategy. Let the first \<open>k\<close>
  answers be such errors and let answer \<open>k\<close> be anything else, or the last of the budget.
  Then exactly \<open>k + 1\<close> requests are sent and answer \<open>k\<close> decides: an error is returned as
  \<^verbatim>\<open>cannot run instances\<close> with no further attempt, a success with a number of instances
  other than one is an error with no further attempt, and a success with one instance is
  the result.
\<close>

theorem startInstance_retries_only_group_not_found:
  assumes img: "FindImageSpec_resp e w = Inr imageId"
    and grp: "setUpGroups e machineId (w @ [FindImageSpecCall]) = (Ok groups, w2)"
    and req: "req = \<lparr>ImageId = imageId, MinCount = 1, MaxCount = 1,
                      InstanceType = ''m1.small'', SecurityGroups = groups\<rparr>"
    and retried: "\<forall>j<k. ec2ErrCode (resp_err
           (RunInstances_resp e (w2 @ replicate j (RunInstancesCall req)) req)) = ''InvalidGroup.NotFound''"
    and budget: "k \<le> shortRetries e w2"
    and settled: "k = shortRetries e w2 \<or> ec2ErrCode (resp_err
           (RunInstances_resp e (w2 @ replicate k (RunInstancesCall req)) req)) \<noteq> ''InvalidGroup.NotFound''"
  shows "startInstance e machineId master w =
     ((case RunInstances_resp e (w2 @ replicate k (RunInstancesCall req)) req of
         Inl err \<Rightarrow> Err (ErrorfErr ''cannot run instances: %v'' err)
       | Inr insts \<Rightarrow>
           if length insts \<noteq> 1
           then Err (ErrorfInt ''expected 1 started instance, got %d'' (int (length insts)))
           else Ok (insts ! 0)),
      w2 @ replicate (Suc k) (RunInstancesCall req))"
proof -
  have lt: "k < Suc (shortRetries e w2)" using budget by simp
  have st: "Suc k = Suc (shortRetries e w2) \<or> ec2ErrCode (resp_err
           (RunInstances_resp e (w2 @ replicate k (RunInstancesCall req)) req)) \<noteq> ''InvalidGroup.NotFound''"
    using settled by auto
  note loop = run_attempts_settles [OF retried lt st, of "(None, None)"]
  show ?thesis
    unfolding startInstance_def FindImageSpec_def img
    using grp loop req
    by (simp del: run_attempts.simps replicate.simps split: sum.splits)
qed

theorem startInstance_witness:
  "startInstance fresh 0 True [] =
     (Ok inst_1, FindImageSpecCall # fresh_setup @ [RunInstancesCall fresh_req, RunInstancesCall fresh_req])"
proof -
  have grp: "setUpGroups fresh 0 ([] @ [FindImageSpecCall]) = (Ok fresh_groups, FindImageSpecCall # fresh_setup)"
    using fresh_setUpGroups [of fresh "[FindImageSpecCall]"] by simp
  have img: "FindImageSpec_resp fresh [] = Inr ''ami-1''"
    by simp
  have req: "fresh_req = \<lparr>ImageId = ''ami-1'', MinCount = 1, MaxCount = 1,
                  InstanceType = ''m1.small'', SecurityGroups = fresh_groups\<rparr>"
    by (simp add: fresh_req_def)
  have retried: "\<forall>j<1. ec2ErrCode (resp_err (RunInstances_resp fresh
      ((FindImageSpecCall # fresh_setup) @ replicate j (RunInstancesCall fresh_req)) fresh_req))
        = ''InvalidGroup.NotFound''"
    by (simp add: fresh_setup_def resp_err_def)
  have budget: "1 \<le> shortRetries fresh (FindImageSpecCall # fresh_setup)"
    by simp
  have settled: "1 = shortRetries fresh (FindImageSpecCall # fresh_setup) \<or>
      ec2ErrCode (resp_err (RunInstances_resp fresh
      ((FindImageSpecCall # fresh_setup) @ replicate 1 (RunInstancesCall fresh_req)) fresh_req))
        \<noteq> ''InvalidGroup.NotFound''"
    by (simp add: resp_err_def)
  from startInstance_retries_only_group_not_found [OF img grp req retried budget settled, of True]
  show ?thesis
    by simp
qed

subsection \<open>Bootstrap\<close>

text \<open>Stopping one instance sends the bulk request for it, once or again after a not-found answer.\<close>

lemma StopInstances_single_trace:
  "\<exists>k \<le> shortRetries e w.
     snd (StopInstances e [inst] w) = w @ replicate (Suc k) (TerminateInstancesCall [InstanceId inst])"
proof -
  let ?c = "TerminateInstancesCall [InstanceId inst]"
  obtain r w' where bulk:
    "terminate_bulk e [InstanceId inst] (Suc (shortRetries e w)) None w = (r, w')"
    by (cases "terminate_bulk e [InstanceId inst] (Suc (shortRetries e w)) None w")
  from terminate_bulk_trace [OF this] obtain k where
    k: "k \<le> Suc (shortRetries e w)" "w' = w @ replicate k ?c" "0 < k"
    by auto
  then obtain j where j: "k = Suc j" by (cases k) auto
  have "snd (StopInstances e [inst] w) = w'"
    unfolding StopInstances_def terminateInstances_def using bulk
    by (simp del: terminate_bulk.simps split: sum.splits)
  then show ?thesis
    using k j by (intro exI [of _ j]) simp
qed

text \<open>The three outcomes of the load at the start of \<^verbatim>\<open>Bootstrap\<close>, as the code has them.\<close>

lemma Bootstrap_already_bootstrapped:
  "loadState_resp e w = Inr st \<Longrightarrow>
   Bootstrap e w = (Err (Errorf ''environment is already bootstrapped''), w @ [LoadStateCall])"
  by (simp add: Bootstrap_def loadState_def)

lemma Bootstrap_aborts_on_s3_error:
  "loadState_resp e w = Inl (S3Error code msg) \<Longrightarrow> code \<noteq> 404 \<Longrightarrow>
   Bootstrap e w = (Err (S3Error code msg), w @ [LoadStateCall])"
  by (simp add: Bootstrap_def loadState_def)

lemma s3_error_not_404_iff:
  "s3_error_not_404 err = (\<exists>code msg. err = S3Error code msg \<and> code \<noteq> 404)"
  by (cases err) auto

lemma Bootstrap_proceeds_otherwise:
  "loadState_resp e w = Inl err \<Longrightarrow> \<not> s3_error_not_404 err \<Longrightarrow>
   startInstance e 0 True (w @ [LoadStateCall]) = (Ok inst, w2) \<Longrightarrow>
   saveState_resp e w2 \<lparr>ZookeeperInstances = [InstanceId inst]\<rparr> = None \<Longrightarrow>
   Bootstrap e w = (Ok (), w2 @ [SaveStateCall \<lparr>ZookeeperInstances = [InstanceId inst]\<rparr>])"
  by (simp add: Bootstrap_def loadState_def saveState_def)

text \<open>
  Claim C8. When the load lets \<^verbatim>\<open>Bootstrap\<close> proceed, the instance is started and saving
  the state fails, \<^verbatim>\<open>Bootstrap\<close> calls \<^verbatim>\<open>StopInstances\<close> once on the instance just started,
  drops its result, and returns the error of \<^verbatim>\<open>saveState\<close>. The requests of the cleanup
  are the terminate request for that instance and nothing else (the request is repeated
  only as \<^verbatim>\<open>terminateInstances\<close> does, after a not-found answer).
\<close>

theorem Bootstrap_save_failure_cleans_up_once:
  assumes load: "loadState_resp e w = Inl lerr"
    and proceed: "\<not> s3_error_not_404 lerr"
    and start: "startInstance e 0 True (w @ [LoadStateCall]) = (Ok inst, w2)"
    and save: "saveState_resp e w2 \<lparr>ZookeeperInstances = [InstanceId inst]\<rparr> = Some serr"
  shows "Bootstrap e w =
           (Err serr,
            snd (StopInstances e [inst]
                   (w2 @ [SaveStateCall \<lparr>ZookeeperInstances = [InstanceId inst]\<rparr>])))
         \<and> (\<exists>k \<le> shortRetries e (w2 @ [SaveStateCall \<lparr>ZookeeperInstances = [InstanceId inst]\<rparr>]).
               snd (Bootstrap e w) =
                 w2 @ [SaveStateCall \<lparr>ZookeeperInstances = [InstanceId inst]\<rparr>]
                    @ replicate (Suc k) (TerminateInstancesCall [InstanceId inst]))"
proof -
  let ?w3 = "w2 @ [SaveStateCall \<lparr>ZookeeperInstances = [InstanceId inst]\<rparr>]"
  have run: "Bootstrap e w = (Err serr, snd (StopInstances e [inst] ?w3))"
    unfolding Bootstrap_def loadState_def saveState_def
    using load proceed start save
    by (simp add: case_prod_unfold)
  from StopInstances_single_trace [of e ?w3 inst] run
  show ?thesis by simp
qed

lemma fresh_run_attempts:
  "RunInstances_resp e = RunInstances_resp fresh \<Longrightarrow>
   run_attempts e fresh_req (Suc (Suc (Suc (Suc 0)))) (None, None)
       (LoadStateCall # FindImageSpecCall # fresh_setup) =
     ((Some [inst_1], None),
      LoadStateCall # FindImageSpecCall # fresh_setup
        @ [RunInstancesCall fresh_req, RunInstancesCall fresh_req])"
  by (simp add: ec2_RunInstances_def fresh_setup_def)

theorem Bootstrap_save_failure_witness:
  "Bootstrap fresh [] =
     (Err (S3Error 500 ''InternalError''),
      LoadStateCall # FindImageSpecCall # fresh_setup
        @ [RunInstancesCall fresh_req, RunInstancesCall fresh_req,
           SaveStateCall \<lparr>ZookeeperInstances = [''i-1'']\<rparr>,
           TerminateInstancesCall [''i-1'']])"
proof -
  let ?w2 = "LoadStateCall # FindImageSpecCall # fresh_setup
               @ [RunInstancesCall fresh_req, RunInstancesCall fresh_req]"
  have load: "loadState_resp fresh [] = Inl (S3Error 404 ''NoSuchKey'')"
    by simp
  have proceed: "\<not> s3_error_not_404 (S3Error 404 ''NoSuchKey'')"
    by simp
  have grp: "setUpGroups fresh 0 ([LoadStateCall] @ [FindImageSpecCall]) =
      (Ok fresh_groups, LoadStateCall # FindImageSpecCall # fresh_setup)"
    using fresh_setUpGroups [of fresh "[LoadStateCall, FindImageSpecCall]"] by simp
  have start: "startInstance fresh 0 True ([] @ [LoadStateCall]) = (Ok inst_1, ?w2)"
    unfolding startInstance_def FindImageSpec_def
    using grp fresh_run_attempts [of fresh]
    by (simp add: fresh_req_def eval_nat_numeral del: run_attempts.simps)
  have save: "saveState_resp fresh ?w2 \<lparr>ZookeeperInstances = [InstanceId inst_1]\<rparr>
      = Some (S3Error 500 ''InternalError'')"
    by simp
  have stop: "snd (StopInstances fresh [inst_1]
        (?w2 @ [SaveStateCall \<lparr>ZookeeperInstances = [InstanceId inst_1]\<rparr>])) =
      ?w2 @ [SaveStateCall \<lparr>ZookeeperInstances = [''i-1'']\<rparr>, TerminateInstancesCall [''i-1'']]"
    by (simp add: StopInstances_def terminateInstances_def ec2_TerminateInstances_def
        inst_1_def eval_nat_numeral)
  from Bootstrap_save_failure_cleans_up_once [OF load proceed start save]
  have "Bootstrap fresh [] = (Err (S3Error 500 ''InternalError''),
      snd (StopInstances fresh [inst_1]
        (?w2 @ [SaveStateCall \<lparr>ZookeeperInstances = [InstanceId inst_1]\<rparr>])))"
    by (rule conjunct1)
  then show ?thesis
    unfolding stop by simp
qed

text \<open>
  Claim C1, at the input where the code leaves it. The stored state cannot be read back:
  \<^verbatim>\<open>loadState\<close> fails with an error that is not an \<^verbatim>\<open>*s3.Error\<close> (a failure to
  deserialize, or of the transport). The test of line 111 asks for an \<^verbatim>\<open>*s3.Error\<close> with
  a status other than 404, so this error does not abort: \<^verbatim>\<open>Bootstrap\<close> sets up the groups,
  starts an instance, saves a new state over the old one and returns success.
\<close>

theorem Bootstrap_proceeds_on_unreadable_state:
  "Bootstrap unreadable [] =
     (Ok (),
      LoadStateCall # FindImageSpecCall # fresh_setup
        @ [RunInstancesCall fresh_req, RunInstancesCall fresh_req,
           SaveStateCall \<lparr>ZookeeperInstances = [''i-1'']\<rparr>])"
proof -
  let ?w2 = "LoadStateCall # FindImageSpecCall # fresh_setup
               @ [RunInstancesCall fresh_req, RunInstancesCall fresh_req]"
  have grp: "setUpGroups unreadable 0 [LoadStateCall, FindImageSpecCall] =
      (Ok fresh_groups, LoadStateCall # FindImageSpecCall # fresh_setup)"
    using fresh_setUpGroups [of unreadable "[LoadStateCall, FindImageSpecCall]"] by simp
  have loop: "run_attempts unreadable fresh_req (Suc (Suc (Suc (Suc 0)))) (None, None)
       (LoadStateCall # FindImageSpecCall # fresh_setup) = ((Some [inst_1], None), ?w2)"
    by (rule fresh_run_attempts) (simp add: fun_eq_iff)
  have start: "startInstance unreadable 0 True [LoadStateCall] = (Ok inst_1, ?w2)"
    unfolding startInstance_def FindImageSpec_def
    using grp loop
    by (simp add: fresh_req_def eval_nat_numeral del: run_attempts.simps)
  show ?thesis
    unfolding Bootstrap_def loadState_def saveState_def
    using start by (simp add: inst_1_def)
qed

subsection \<open>gatherInstances and Instances\<close>

lemma second_pass_fields [simp]:
  "env_name second_pass = ''e''"
  "Instances_resp second_pass w f = Inr [[inst_2]]"
  by (simp_all add: second_pass_def fresh_def)

lemma scan_response_step:
  "scan_response i found (slot, n) = (slot', n') \<Longrightarrow>
   n \<le> n' \<and> (n < n' \<longrightarrow> slot' \<noteq> None) \<and> (slot \<noteq> None \<longrightarrow> slot' \<noteq> None)
   \<and> (slot' = slot \<or> (\<exists>x. slot' = Some x \<and> InstanceId x = i \<and> x \<in> set found))"
proof (induction found arbitrary: slot n)
  case Nil
  then show ?case by (simp add: scan_response_def)
next
  case (Cons a found)
  show ?case
  proof (cases "InstanceId a = i")
    case True
    then have "scan_response i found (Some a, n + 1) = (slot', n')"
      using Cons.prems by (simp add: scan_response_def)
    from Cons.IH [OF this] True show ?thesis by auto
  next
    case False
    then have "scan_response i found (slot, n) = (slot', n')"
      using Cons.prems by (simp add: scan_response_def)
    from Cons.IH [OF this] show ?thesis by auto
  qed
qed






lemma fill_slots_writes:
  "fill_slots ids insts found n = (insts', n', p) \<Longrightarrow> j < length insts \<Longrightarrow>
   (insts ! j \<noteq> None \<longrightarrow> insts' ! j = insts ! j)
   \<and> (\<forall>x. insts' ! j = Some x \<longrightarrow>
          insts ! j = Some x \<or> (j < length ids \<and> InstanceId x = ids ! j \<and> x \<in> set found))"
proof (induction ids insts found n arbitrary: insts' n' p j rule: fill_slots.induct)
  case (3 i ids y insts found n)
  obtain rest m q where r: "fill_slots ids insts found n = (rest, m, q)"
    by (cases "fill_slots ids insts found n")
  with 3(2) have i: "insts' = Some y # rest" by simp
  show ?case
  proof (cases j)
    case 0
    then show ?thesis unfolding i by simp
  next
    case (Suc k)
    with 3(1) [OF r, of k] 3(3) show ?thesis unfolding i by simp
  qed
next
  case (4 i ids insts found n)
  obtain slot n1 where s: "scan_response i found (None, n) = (slot, n1)"
    by (cases "scan_response i found (None, n)")
  obtain rest m q where r: "fill_slots ids insts found n1 = (rest, m, q)"
    by (cases "fill_slots ids insts found n1")
  from 4(2) s r have i: "insts' = slot # rest" by simp
  show ?case
  proof (cases j)
    case 0
    with scan_response_step [OF s] show ?thesis unfolding i by auto
  next
    case (Suc k)
    with 4(1) [OF s [symmetric] refl r, of k] 4(3) show ?thesis unfolding i by simp
  qed
qed auto

text \<open>
  What \<^verbatim>\<open>gatherInstances\<close> does to the slots: a filled slot is kept, and a slot it fills
  holds an instance of the response whose id is the id of the slot.
\<close>

lemma gatherInstances_writes:
  assumes run: "gatherInstances e ids insts w = (r, insts', w')" and j: "j < length insts"
  shows "(insts ! j \<noteq> None \<longrightarrow> insts' ! j = insts ! j)
         \<and> (\<forall>x. insts' ! j = Some x \<longrightarrow>
                insts ! j = Some x \<or> (j < length ids \<and> InstanceId x = ids ! j))"
proof (cases "insts' = insts")
  case True
  then show ?thesis by simp
next
  case False
  then obtain found n p where "fill_slots ids insts found 0 = (insts', n, p)"
    using run
    by (auto simp: gatherInstances_def ec2_Instances_def Let_def
        split: option.splits if_splits sum.splits prod.splits)
  from fill_slots_writes [OF this j] show ?thesis by blast
qed




text \<open>
  Claim C6, at the input where the code leaves it. The first slot was filled by an
  earlier pass, and this pass finds the instance of the second: every slot is filled after
  the pass, and \<^verbatim>\<open>gatherInstances\<close> returns \<^verbatim>\<open>ErrMissingInstance\<close>. The counter \<^verbatim>\<open>n\<close> of
  line 226 counts the matches of this pass only, and line 244 compares it with the number
  of all ids. The comment above the function says the signal is for a slice that
  has not been completely filled. The two other parts of the claim hold
  (\<open>gatherInstances_writes\<close>).
\<close>

theorem gatherInstances_missing_although_filled:
  "gatherInstances second_pass [''i-1'', ''i-2''] [Some inst_1, None] [] =
     (Err ErrMissingInstance, [Some inst_1, Some inst_2],
      [InstancesCall [(''instance-state-name'', [''pending'', ''running'']),
                      (''group-name'', [''juju-e'']), (''instance-id'', [''i-2''])]])"
  by (simp add: gatherInstances_def ec2_Instances_def scan_response_def groupName_def inst_2_def)


subsection \<open>Destroy\<close>






end
